theory Spec2Isabelle
  imports Complex_Main
begin

section \<open>Data model\<close>

text \<open>
  The integrators of \<^verbatim>\<open>src/integrate.cpp\<close> work on three structs declared in
  \<^verbatim>\<open>data.hpp\<close>, which is not part of the sources at hand.  Their fields are read off
  the uses in \<^verbatim>\<open>integrate.cpp\<close>: \<^verbatim>\<open>ExplicitRungeKutta\<close> accumulates
  \<^verbatim>\<open>tableau.b[i] * ks[i].vel\<close> into a \<^verbatim>\<open>double\<close>, so every field is a scalar.
  The first embedding takes scalars as exact reals: it decides which calls a stepper makes
  and which formula it applies.  Properties that depend on rounding, overflow, infinities or
  NaN are decided on a second embedding over IEEE doubles, further below.
\<close>

text \<open>
  Modelled from the spec: the struct \<^verbatim>\<open>ParticleState\<close> of \<^verbatim>\<open>data.hpp\<close>, with the
  fields \<^verbatim>\<open>pos\<close> and \<^verbatim>\<open>vel\<close>.  The record is extensible: whatever else the struct
  holds lives in the \<open>more\<close> part.
\<close>

record ParticleState =
  pos :: real
  vel :: real

text \<open>
  Modelled from the spec: the struct \<^verbatim>\<open>DeltaState\<close> of \<^verbatim>\<open>data.hpp\<close>, with the
  fields \<^verbatim>\<open>vel\<close> and \<^verbatim>\<open>accel\<close>.  From here on the unqualified \<open>vel\<close> is the field
  of \<open>DeltaState\<close>; the field of the particle is written \<open>ParticleState.vel\<close>.
\<close>

record DeltaState =
  vel :: real
  accel :: real

text \<open>
  Modelled from the spec: the struct \<^verbatim>\<open>ButcherTableau\<close> of \<^verbatim>\<open>data.hpp\<close>, three
  \<^verbatim>\<open>std::vector\<close>s of coefficients.
\<close>

record ButcherTableau =
  a :: "real list list"
  b :: "real list"
  c :: "real list"

text \<open>
  Modelled from the spec: the default constructor \<^verbatim>\<open>DeltaState()\<close> of \<^verbatim>\<open>data.hpp\<close>
  yields the all-zero value.
\<close>

definition DeltaState_default :: DeltaState where
  "DeltaState_default = \<lparr>vel = 0, accel = 0\<rparr>"

text \<open>
  The evaluator is a C function pointer: it may read and write state of its own.  That
  state is the world \<open>'w\<close>, passed in and returned at every call, so that the number and
  the order of the calls a stepper makes are visible in the result.
\<close>

type_synonym ('s, 'w) FixedEvaluator =
  "'s ParticleState_scheme \<Rightarrow> real \<Rightarrow> real \<Rightarrow> DeltaState \<Rightarrow> 'w \<Rightarrow> DeltaState \<times> 'w"

type_synonym ('s, 'w) GenericEvaluator =
  "'s ParticleState_scheme \<Rightarrow> real \<Rightarrow> real \<Rightarrow> DeltaState list \<Rightarrow> ButcherTableau \<Rightarrow> nat
     \<Rightarrow> 'w \<Rightarrow> DeltaState \<times> 'w"

text \<open>
  \<^verbatim>\<open>operator[]\<close> of \<^verbatim>\<open>std::vector\<close> is unchecked; an access out of range is undefined
  behaviour.  The model makes it an error value.
\<close>

datatype error = OutOfRange

definition load_at :: "'x list \<Rightarrow> nat \<Rightarrow> error + 'x" where
  "load_at xs i = (if i < length xs then Inr (xs ! i) else Inl OutOfRange)"

definition store_at :: "'x list \<Rightarrow> nat \<Rightarrow> 'x \<Rightarrow> error + 'x list" where
  "store_at xs i v = (if i < length xs then Inr (xs[i := v]) else Inl OutOfRange)"

section \<open>The fixed-coefficient steppers\<close>

text \<open>
  Each stepper takes the state by reference and assigns \<^verbatim>\<open>state.pos\<close>, then
  \<^verbatim>\<open>state.vel\<close>; the model returns the updated state and the evaluator's world.
\<close>

definition Euler ::
  "'s ParticleState_scheme \<Rightarrow> real \<Rightarrow> real \<Rightarrow> ('s, 'w) FixedEvaluator \<Rightarrow> 'w
     \<Rightarrow> 's ParticleState_scheme \<times> 'w" where
  "Euler state time deltaTime evaluateFunc w =
     (case evaluateFunc state time deltaTime DeltaState_default w of (k1, w1) \<Rightarrow>
        (let state = state\<lparr>pos := pos state + deltaTime * vel k1\<rparr>;
             state = state\<lparr>ParticleState.vel := ParticleState.vel state + deltaTime * accel k1\<rparr>
         in (state, w1)))"

definition MidPoint ::
  "'s ParticleState_scheme \<Rightarrow> real \<Rightarrow> real \<Rightarrow> ('s, 'w) FixedEvaluator \<Rightarrow> 'w
     \<Rightarrow> 's ParticleState_scheme \<times> 'w" where
  "MidPoint state time deltaTime evaluateFunc w =
     (case evaluateFunc state time (0.5 * deltaTime) DeltaState_default w of (k1, w1) \<Rightarrow>
        (let state = state\<lparr>pos := pos state + deltaTime * (vel k1 + (deltaTime / 2) * vel k1)\<rparr>;
             state = state\<lparr>ParticleState.vel :=
                       ParticleState.vel state + deltaTime * (accel k1 * 1.5)\<rparr>
         in (state, w1)))"

definition Ralston ::
  "'s ParticleState_scheme \<Rightarrow> real \<Rightarrow> real \<Rightarrow> ('s, 'w) FixedEvaluator \<Rightarrow> 'w
     \<Rightarrow> 's ParticleState_scheme \<times> 'w" where
  "Ralston state time deltaTime evaluateFunc w =
     (case evaluateFunc state time 0 DeltaState_default w of (k1, w1) \<Rightarrow>
      case evaluateFunc state time ((2.0 / 3.0) * deltaTime) k1 w1 of (k2, w2) \<Rightarrow>
        (let state = state\<lparr>pos := pos state + deltaTime * (0.25 * vel k1 + 0.75 * vel k2)\<rparr>;
             state = state\<lparr>ParticleState.vel :=
                       ParticleState.vel state + deltaTime * (0.25 * accel k1 + 0.75 * accel k2)\<rparr>
         in (state, w2)))"

definition RK4 ::
  "'s ParticleState_scheme \<Rightarrow> real \<Rightarrow> real \<Rightarrow> ('s, 'w) FixedEvaluator \<Rightarrow> 'w
     \<Rightarrow> 's ParticleState_scheme \<times> 'w" where
  "RK4 state time deltaTime evaluateFunc w =
     (case evaluateFunc state time 0 DeltaState_default w of (k1, w1) \<Rightarrow>
      case evaluateFunc state time (0.5 * deltaTime) k1 w1 of (k2, w2) \<Rightarrow>
      case evaluateFunc state time (0.5 * deltaTime) k2 w2 of (k3, w3) \<Rightarrow>
      case evaluateFunc state time deltaTime k3 w3 of (k4, w4) \<Rightarrow>
        (let state = state\<lparr>pos := pos state
                       + deltaTime / 6.0 * (vel k1 + 2 * (vel k2 + vel k3) + vel k4)\<rparr>;
             state = state\<lparr>ParticleState.vel := ParticleState.vel state
                       + deltaTime / 6.0 * (accel k1 + 2 * (accel k2 + accel k3) + accel k4)\<rparr>
         in (state, w4)))"

section \<open>The generic explicit Runge-Kutta stepper\<close>

text \<open>
  The first loop of \<^verbatim>\<open>ExplicitRungeKutta\<close>:
  \<^verbatim>\<open>for (int i = 0; i < ks.size(); i++) ks[i] = evaluateFunc(state, time, deltaTime, ks, tableau, i);\<close>
  The counter is a natural number: the model is of tableaux whose stage count fits the
  \<^verbatim>\<open>int\<close> counter of the source.
\<close>

function ExplicitRungeKutta_stages ::
  "'s ParticleState_scheme \<Rightarrow> real \<Rightarrow> real \<Rightarrow> ButcherTableau \<Rightarrow> ('s, 'w) GenericEvaluator
     \<Rightarrow> nat \<Rightarrow> DeltaState list \<Rightarrow> 'w \<Rightarrow> error + (DeltaState list \<times> 'w)" where
  "ExplicitRungeKutta_stages state time deltaTime tableau evaluateFunc i ks w =
     (if i < length ks then
        (case evaluateFunc state time deltaTime ks tableau i w of (k, w') \<Rightarrow>
           (case store_at ks i k of
              Inl e \<Rightarrow> Inl e
            | Inr ks' \<Rightarrow>
                ExplicitRungeKutta_stages state time deltaTime tableau evaluateFunc (Suc i) ks' w'))
      else Inr (ks, w))"
  by pat_completeness auto
termination
  by (relation "measure (\<lambda>(state, time, deltaTime, tableau, evaluateFunc, i, ks, w). length ks - i)")
     (auto simp: store_at_def split: if_splits)

text \<open>
  The second loop:
  \<^verbatim>\<open>for (int i = 0; i < tableau.b.size(); i++) { deltaPos += tableau.b[i] * ks[i].vel; deltaVel += tableau.b[i] * ks[i].accel; }\<close>
\<close>

function ExplicitRungeKutta_weights ::
  "ButcherTableau \<Rightarrow> DeltaState list \<Rightarrow> nat \<Rightarrow> real \<times> real \<Rightarrow> error + (real \<times> real)" where
  "ExplicitRungeKutta_weights tableau ks i (deltaPos, deltaVel) =
     (if i < length (b tableau) then
        (case load_at (b tableau) i of
           Inl e \<Rightarrow> Inl e
         | Inr bi \<Rightarrow>
             (case load_at ks i of
                Inl e \<Rightarrow> Inl e
              | Inr ki \<Rightarrow>
                  ExplicitRungeKutta_weights tableau ks (Suc i)
                    (deltaPos + bi * vel ki, deltaVel + bi * accel ki)))
      else Inr (deltaPos, deltaVel))"
  by pat_completeness auto
termination
  by (relation "measure (\<lambda>(tableau, ks, i, acc). length (b tableau) - i)") auto

definition ExplicitRungeKutta ::
  "'s ParticleState_scheme \<Rightarrow> real \<Rightarrow> real \<Rightarrow> ButcherTableau \<Rightarrow> ('s, 'w) GenericEvaluator \<Rightarrow> 'w
     \<Rightarrow> error + ('s ParticleState_scheme \<times> 'w)" where
  "ExplicitRungeKutta state time deltaTime tableau evaluateFunc w =
     (case ExplicitRungeKutta_stages state time deltaTime tableau evaluateFunc 0
             (replicate (length (b tableau)) DeltaState_default) w of
        Inl e \<Rightarrow> Inl e
      | Inr (ks, w') \<Rightarrow>
          (case ExplicitRungeKutta_weights tableau ks 0 (0, 0) of
             Inl e \<Rightarrow> Inl e
           | Inr (deltaPos, deltaVel) \<Rightarrow>
               (let state = state\<lparr>pos := pos state + deltaTime * deltaPos\<rparr>;
                    state = state\<lparr>ParticleState.vel :=
                              ParticleState.vel state + deltaTime * deltaVel\<rparr>
                in Inr (state, w'))))"

section \<open>Instrumented evaluators\<close>

text \<open>
  A side-effect free evaluator leaves the world alone.  A traced evaluator is a pure
  function that appends the arguments of every call to a log, the world.
\<close>

definition pure_fixed ::
  "('s ParticleState_scheme \<Rightarrow> real \<Rightarrow> real \<Rightarrow> DeltaState \<Rightarrow> DeltaState) \<Rightarrow> ('s, 'w) FixedEvaluator" where
  "pure_fixed f state time offset prev w = (f state time offset prev, w)"

definition pure_generic ::
  "('s ParticleState_scheme \<Rightarrow> real \<Rightarrow> real \<Rightarrow> DeltaState list \<Rightarrow> ButcherTableau \<Rightarrow> nat \<Rightarrow> DeltaState)
     \<Rightarrow> ('s, 'w) GenericEvaluator" where
  "pure_generic g state time deltaTime ks tableau i w = (g state time deltaTime ks tableau i, w)"

definition traced_fixed ::
  "('s ParticleState_scheme \<Rightarrow> real \<Rightarrow> real \<Rightarrow> DeltaState \<Rightarrow> DeltaState)
     \<Rightarrow> ('s, ('s ParticleState_scheme \<times> real \<times> real \<times> DeltaState) list) FixedEvaluator" where
  "traced_fixed f state time offset prev calls =
     (f state time offset prev, calls @ [(state, time, offset, prev)])"

definition traced_generic ::
  "('s ParticleState_scheme \<Rightarrow> real \<Rightarrow> real \<Rightarrow> DeltaState list \<Rightarrow> ButcherTableau \<Rightarrow> nat \<Rightarrow> DeltaState)
     \<Rightarrow> ('s, ('s ParticleState_scheme \<times> real \<times> real \<times> DeltaState list \<times> ButcherTableau \<times> nat) list)
          GenericEvaluator" where
  "traced_generic g state time deltaTime ks tableau i calls =
     (g state time deltaTime ks tableau i, calls @ [(state, time, deltaTime, ks, tableau, i)])"

section \<open>Auxiliary definitions of the properties\<close>

text \<open>
  The tableau of Ralston's method as the specification gives it:
  \<open>c = [0, 2/3]\<close>, \<open>b = [1/4, 3/4]\<close>, \<open>a = [[0, 0], [2/3, 0]]\<close>.
\<close>

definition Ralston_tableau :: ButcherTableau where
  "Ralston_tableau = \<lparr>a = [[0, 0], [2/3, 0]], b = [1/4, 3/4], c = [0, 2/3]\<rparr>"


text \<open>
  The worked example in the comment above \<^verbatim>\<open>Euler\<close> applies the stepper repeatedly,
  advancing the time by the step after each application.
\<close>

primrec Euler_steps ::
  "nat \<Rightarrow> 's ParticleState_scheme \<Rightarrow> real \<Rightarrow> real \<Rightarrow> ('s, 'w) FixedEvaluator \<Rightarrow> 'w
     \<Rightarrow> 's ParticleState_scheme \<times> 'w" where
  "Euler_steps 0 state time deltaTime evaluateFunc w = (state, w)"
| "Euler_steps (Suc n) state time deltaTime evaluateFunc w =
     (case Euler state time deltaTime evaluateFunc w of (state', w') \<Rightarrow>
        Euler_steps n state' (time + deltaTime) deltaTime evaluateFunc w')"



section \<open>IEEE double arithmetic\<close>

text \<open>
  The source computes in \<^verbatim>\<open>double\<close>: IEEE 754 binary64 with rounding to nearest, ties to
  even, every operation rounded to double precision (no extended precision, no fused
  multiply-add).  A double is a signed zero, a finite non-zero number, a signed infinity
  or NaN; the sign is \<open>True\<close> for negative.  All NaNs are one value.  \<open>Finite\<close> carries a real
  number; the doubles among them are the \<open>well_formed\<close> ones, which rounding leaves as they
  are.
\<close>

datatype double = Zero bool | Finite real | Infinity bool | NaN

text \<open>
  The binade of \<open>x\<close> is the exponent \<open>e\<close> with \<open>2^e \<le> |x| < 2^(e+1)\<close>, kept within the
  exponent range \<open>-1022 .. 1023\<close> of binary64; the spacing of the doubles around \<open>x\<close> is
  \<open>2^(e-52)\<close>.
\<close>

function binade_from :: "int \<Rightarrow> real \<Rightarrow> int" where
  "binade_from e x = (if e < 1023 \<and> 2 powi (e + 1) \<le> \<bar>x\<bar> then binade_from (e + 1) x else e)"
  by pat_completeness auto
termination
  by (relation "measure (\<lambda>(e, x). nat (1023 - e))") auto

definition binade :: "real \<Rightarrow> int" where
  "binade x = binade_from (- 1022) x"

text \<open>The nearest integer, the even one of the two at a tie.\<close>

definition round_half_even :: "real \<Rightarrow> int" where
  "round_half_even q =
     (let f = \<lfloor>q\<rfloor>; r = q - of_int f
      in if r < 1 / 2 then f else if 1 / 2 < r then f + 1 else if even f then f else f + 1)"

text \<open>
  Rounding a real number to a double: the nearest multiple of the spacing; a result of
  magnitude \<open>2^1024\<close> or more is an infinity, a result of \<open>0\<close> keeps the sign of the number.
\<close>

definition round_to_double :: "real \<Rightarrow> double" where
  "round_to_double x =
     (if x = 0 then Zero False
      else let q = 2 powi (binade x - 52);
               n = round_half_even (\<bar>x\<bar> / q)
           in if n = 0 then Zero (x < 0)
              else if 2 ^ 1024 \<le> of_int n * q then Infinity (x < 0)
              else Finite (sgn x * (of_int n * q)))"

text \<open>
  The operations on the special values follow IEEE 754; on finite non-zero operands they
  round the exact result.  An exact sum of zero is \<open>+0\<close> unless both operands are \<open>-0\<close>.
\<close>

fun double_add :: "double \<Rightarrow> double \<Rightarrow> double" where
  "double_add NaN y = NaN"
| "double_add x NaN = NaN"
| "double_add (Infinity s) (Infinity t) = (if s = t then Infinity s else NaN)"
| "double_add (Infinity s) y = Infinity s"
| "double_add x (Infinity t) = Infinity t"
| "double_add (Zero s) (Zero t) = Zero (s \<and> t)"
| "double_add (Zero s) (Finite y) = round_to_double y"
| "double_add (Finite x) (Zero t) = round_to_double x"
| "double_add (Finite x) (Finite y) = round_to_double (x + y)"

fun double_mul :: "double \<Rightarrow> double \<Rightarrow> double" where
  "double_mul NaN y = NaN"
| "double_mul x NaN = NaN"
| "double_mul (Infinity s) (Zero t) = NaN"
| "double_mul (Zero s) (Infinity t) = NaN"
| "double_mul (Infinity s) (Infinity t) = Infinity (s \<noteq> t)"
| "double_mul (Infinity s) (Finite y) = Infinity (s \<noteq> (y < 0))"
| "double_mul (Finite x) (Infinity t) = Infinity ((x < 0) \<noteq> t)"
| "double_mul (Zero s) (Zero t) = Zero (s \<noteq> t)"
| "double_mul (Zero s) (Finite y) = Zero (s \<noteq> (y < 0))"
| "double_mul (Finite x) (Zero t) = Zero ((x < 0) \<noteq> t)"
| "double_mul (Finite x) (Finite y) = round_to_double (x * y)"

fun double_div :: "double \<Rightarrow> double \<Rightarrow> double" where
  "double_div NaN y = NaN"
| "double_div x NaN = NaN"
| "double_div (Infinity s) (Infinity t) = NaN"
| "double_div (Zero s) (Zero t) = NaN"
| "double_div (Infinity s) (Zero t) = Infinity (s \<noteq> t)"
| "double_div (Infinity s) (Finite y) = Infinity (s \<noteq> (y < 0))"
| "double_div (Zero s) (Infinity t) = Zero (s \<noteq> t)"
| "double_div (Finite x) (Infinity t) = Zero ((x < 0) \<noteq> t)"
| "double_div (Finite x) (Zero t) = Infinity ((x < 0) \<noteq> t)"
| "double_div (Zero s) (Finite y) = Zero (s \<noteq> (y < 0))"
| "double_div (Finite x) (Finite y) = round_to_double (x / y)"

instantiation double :: "{plus, times, inverse}"
begin

definition plus_double :: "double \<Rightarrow> double \<Rightarrow> double" where
  "plus_double = double_add"

definition times_double :: "double \<Rightarrow> double \<Rightarrow> double" where
  "times_double = double_mul"

definition divide_double :: "double \<Rightarrow> double \<Rightarrow> double" where
  "divide_double = double_div"

definition inverse_double :: "double \<Rightarrow> double" where
  "inverse_double x = double_div (Finite 1) x"

instance ..

end

fun is_finite :: "double \<Rightarrow> bool" where
  "is_finite (Zero s) = True"
| "is_finite (Finite x) = True"
| "is_finite (Infinity s) = False"
| "is_finite NaN = False"

fun is_zero :: "double \<Rightarrow> bool" where
  "is_zero (Zero s) = True"
| "is_zero x = False"

fun well_formed :: "double \<Rightarrow> bool" where
  "well_formed (Finite x) = (round_to_double x = Finite x)"
| "well_formed x = True"

text \<open>Two doubles have the same value when they are equal or both are zeros.\<close>

fun same_value :: "double \<Rightarrow> double \<Rightarrow> bool" where
  "same_value (Zero s) (Zero t) = True"
| "same_value x y = (x = y)"

section \<open>The steppers over doubles\<close>

text \<open>
  The structs and the five steppers once more, each scalar a \<open>double\<close> and each operation
  the rounded one.  The literals \<^verbatim>\<open>0.5\<close>, \<^verbatim>\<open>1.5\<close>, \<^verbatim>\<open>0.25\<close>, \<^verbatim>\<open>0.75\<close>, \<^verbatim>\<open>2\<close>, \<^verbatim>\<open>6.0\<close> are doubles;
  \<^verbatim>\<open>2.0/3.0\<close> is the rounded quotient; \<^verbatim>\<open>0.\<close> and the fields of \<^verbatim>\<open>DeltaState()\<close> are \<open>+0\<close>.
\<close>

record ParticleState64 =
  pos64 :: double
  vel64 :: double

record DeltaState64 =
  vel64 :: double
  accel64 :: double

record ButcherTableau64 =
  a64 :: "double list list"
  b64 :: "double list"
  c64 :: "double list"

definition DeltaState64_default :: DeltaState64 where
  "DeltaState64_default = \<lparr>vel64 = Zero False, accel64 = Zero False\<rparr>"

type_synonym ('s, 'w) FixedEvaluator64 =
  "'s ParticleState64_scheme \<Rightarrow> double \<Rightarrow> double \<Rightarrow> DeltaState64 \<Rightarrow> 'w \<Rightarrow> DeltaState64 \<times> 'w"

type_synonym ('s, 'w) GenericEvaluator64 =
  "'s ParticleState64_scheme \<Rightarrow> double \<Rightarrow> double \<Rightarrow> DeltaState64 list \<Rightarrow> ButcherTableau64 \<Rightarrow> nat
     \<Rightarrow> 'w \<Rightarrow> DeltaState64 \<times> 'w"

definition Euler64 ::
  "'s ParticleState64_scheme \<Rightarrow> double \<Rightarrow> double \<Rightarrow> ('s, 'w) FixedEvaluator64 \<Rightarrow> 'w
     \<Rightarrow> 's ParticleState64_scheme \<times> 'w" where
  "Euler64 state time deltaTime evaluateFunc w =
     (case evaluateFunc state time deltaTime DeltaState64_default w of (k1, w1) \<Rightarrow>
        (let state = state\<lparr>pos64 := pos64 state + deltaTime * vel64 k1\<rparr>;
             state = state\<lparr>ParticleState64.vel64 :=
                       ParticleState64.vel64 state + deltaTime * accel64 k1\<rparr>
         in (state, w1)))"

definition MidPoint64 ::
  "'s ParticleState64_scheme \<Rightarrow> double \<Rightarrow> double \<Rightarrow> ('s, 'w) FixedEvaluator64 \<Rightarrow> 'w
     \<Rightarrow> 's ParticleState64_scheme \<times> 'w" where
  "MidPoint64 state time deltaTime evaluateFunc w =
     (case evaluateFunc state time (Finite 0.5 * deltaTime) DeltaState64_default w of (k1, w1) \<Rightarrow>
        (let state = state\<lparr>pos64 := pos64 state
                       + deltaTime * (vel64 k1 + (deltaTime / Finite 2) * vel64 k1)\<rparr>;
             state = state\<lparr>ParticleState64.vel64 :=
                       ParticleState64.vel64 state + deltaTime * (accel64 k1 * Finite 1.5)\<rparr>
         in (state, w1)))"

definition Ralston64 ::
  "'s ParticleState64_scheme \<Rightarrow> double \<Rightarrow> double \<Rightarrow> ('s, 'w) FixedEvaluator64 \<Rightarrow> 'w
     \<Rightarrow> 's ParticleState64_scheme \<times> 'w" where
  "Ralston64 state time deltaTime evaluateFunc w =
     (case evaluateFunc state time (Zero False) DeltaState64_default w of (k1, w1) \<Rightarrow>
      case evaluateFunc state time ((Finite 2 / Finite 3) * deltaTime) k1 w1 of (k2, w2) \<Rightarrow>
        (let state = state\<lparr>pos64 := pos64 state
                       + deltaTime * (Finite 0.25 * vel64 k1 + Finite 0.75 * vel64 k2)\<rparr>;
             state = state\<lparr>ParticleState64.vel64 := ParticleState64.vel64 state
                       + deltaTime * (Finite 0.25 * accel64 k1 + Finite 0.75 * accel64 k2)\<rparr>
         in (state, w2)))"

definition RK4_64 ::
  "'s ParticleState64_scheme \<Rightarrow> double \<Rightarrow> double \<Rightarrow> ('s, 'w) FixedEvaluator64 \<Rightarrow> 'w
     \<Rightarrow> 's ParticleState64_scheme \<times> 'w" where
  "RK4_64 state time deltaTime evaluateFunc w =
     (case evaluateFunc state time (Zero False) DeltaState64_default w of (k1, w1) \<Rightarrow>
      case evaluateFunc state time (Finite 0.5 * deltaTime) k1 w1 of (k2, w2) \<Rightarrow>
      case evaluateFunc state time (Finite 0.5 * deltaTime) k2 w2 of (k3, w3) \<Rightarrow>
      case evaluateFunc state time deltaTime k3 w3 of (k4, w4) \<Rightarrow>
        (let state = state\<lparr>pos64 := pos64 state
                       + deltaTime / Finite 6 * (vel64 k1 + Finite 2 * (vel64 k2 + vel64 k3) + vel64 k4)\<rparr>;
             state = state\<lparr>ParticleState64.vel64 := ParticleState64.vel64 state
                       + deltaTime / Finite 6
                           * (accel64 k1 + Finite 2 * (accel64 k2 + accel64 k3) + accel64 k4)\<rparr>
         in (state, w4)))"

function ExplicitRungeKutta_stages64 ::
  "'s ParticleState64_scheme \<Rightarrow> double \<Rightarrow> double \<Rightarrow> ButcherTableau64 \<Rightarrow> ('s, 'w) GenericEvaluator64
     \<Rightarrow> nat \<Rightarrow> DeltaState64 list \<Rightarrow> 'w \<Rightarrow> error + (DeltaState64 list \<times> 'w)" where
  "ExplicitRungeKutta_stages64 state time deltaTime tableau evaluateFunc i ks w =
     (if i < length ks then
        (case evaluateFunc state time deltaTime ks tableau i w of (k, w') \<Rightarrow>
           (case store_at ks i k of
              Inl e \<Rightarrow> Inl e
            | Inr ks' \<Rightarrow>
                ExplicitRungeKutta_stages64 state time deltaTime tableau evaluateFunc (Suc i) ks' w'))
      else Inr (ks, w))"
  by pat_completeness auto
termination
  by (relation "measure (\<lambda>(state, time, deltaTime, tableau, evaluateFunc, i, ks, w). length ks - i)")
     (auto simp: store_at_def split: if_splits)

function ExplicitRungeKutta_weights64 ::
  "ButcherTableau64 \<Rightarrow> DeltaState64 list \<Rightarrow> nat \<Rightarrow> double \<times> double \<Rightarrow> error + (double \<times> double)" where
  "ExplicitRungeKutta_weights64 tableau ks i (deltaPos, deltaVel) =
     (if i < length (b64 tableau) then
        (case load_at (b64 tableau) i of
           Inl e \<Rightarrow> Inl e
         | Inr bi \<Rightarrow>
             (case load_at ks i of
                Inl e \<Rightarrow> Inl e
              | Inr ki \<Rightarrow>
                  ExplicitRungeKutta_weights64 tableau ks (Suc i)
                    (deltaPos + bi * vel64 ki, deltaVel + bi * accel64 ki)))
      else Inr (deltaPos, deltaVel))"
  by pat_completeness auto
termination
  by (relation "measure (\<lambda>(tableau, ks, i, acc). length (b64 tableau) - i)") auto

definition ExplicitRungeKutta64 ::
  "'s ParticleState64_scheme \<Rightarrow> double \<Rightarrow> double \<Rightarrow> ButcherTableau64 \<Rightarrow> ('s, 'w) GenericEvaluator64
     \<Rightarrow> 'w \<Rightarrow> error + ('s ParticleState64_scheme \<times> 'w)" where
  "ExplicitRungeKutta64 state time deltaTime tableau evaluateFunc w =
     (case ExplicitRungeKutta_stages64 state time deltaTime tableau evaluateFunc 0
             (replicate (length (b64 tableau)) DeltaState64_default) w of
        Inl e \<Rightarrow> Inl e
      | Inr (ks, w') \<Rightarrow>
          (case ExplicitRungeKutta_weights64 tableau ks 0 (Zero False, Zero False) of
             Inl e \<Rightarrow> Inl e
           | Inr (deltaPos, deltaVel) \<Rightarrow>
               (let state = state\<lparr>pos64 := pos64 state + deltaTime * deltaPos\<rparr>;
                    state = state\<lparr>ParticleState64.vel64 :=
                              ParticleState64.vel64 state + deltaTime * deltaVel\<rparr>
                in Inr (state, w'))))"

text \<open>An evaluator without side effects that returns the same stage value at every call.\<close>

definition constant_fixed64 :: "DeltaState64 \<Rightarrow> ('s, 'w) FixedEvaluator64" where
  "constant_fixed64 d state time offset prev w = (d, w)"

text \<open>Evaluators that return the same stage value at every call and count their calls.\<close>

definition counting_fixed64 :: "DeltaState64 \<Rightarrow> ('s, nat) FixedEvaluator64" where
  "counting_fixed64 d state time offset prev calls = (d, Suc calls)"

definition counting_generic64 :: "DeltaState64 \<Rightarrow> ('s, nat) GenericEvaluator64" where
  "counting_generic64 d state time deltaTime ks tableau i calls = (d, Suc calls)"

section \<open>The two loops of the generic stepper\<close>

text \<open>
  The recursive equations unfold forever under the simplifier; they are applied one
  iteration at a time through the lemmas below, which also discharge the range checks.
\<close>

declare ExplicitRungeKutta_stages.simps [simp del]
declare ExplicitRungeKutta_weights.simps [simp del]
declare binade_from.simps [simp del]
declare ExplicitRungeKutta_stages64.simps [simp del]
declare ExplicitRungeKutta_weights64.simps [simp del]

lemma stages_step:
  "i < length ks \<Longrightarrow>
   ExplicitRungeKutta_stages state time deltaTime tableau evaluateFunc i ks w =
     (case evaluateFunc state time deltaTime ks tableau i w of (k, w') \<Rightarrow>
        ExplicitRungeKutta_stages state time deltaTime tableau evaluateFunc (Suc i) (ks[i := k]) w')"
  by (subst ExplicitRungeKutta_stages.simps) (simp add: store_at_def split: prod.splits)

lemma stages_done:
  "\<not> i < length ks \<Longrightarrow>
   ExplicitRungeKutta_stages state time deltaTime tableau evaluateFunc i ks w = Inr (ks, w)"
  by (subst ExplicitRungeKutta_stages.simps) simp

lemma weights_step:
  "i < length (b tableau) \<Longrightarrow> i < length ks \<Longrightarrow>
   ExplicitRungeKutta_weights tableau ks i (dp, dv) =
     ExplicitRungeKutta_weights tableau ks (Suc i)
       (dp + b tableau ! i * vel (ks ! i), dv + b tableau ! i * accel (ks ! i))"
  by (subst ExplicitRungeKutta_weights.simps) (simp add: load_at_def)

lemma weights_done:
  "\<not> i < length (b tableau) \<Longrightarrow> ExplicitRungeKutta_weights tableau ks i (dp, dv) = Inr (dp, dv)"
  by (subst ExplicitRungeKutta_weights.simps) simp

lemma stages_total:
  "\<exists>ks' w'. ExplicitRungeKutta_stages state time deltaTime tableau evaluateFunc i ks w = Inr (ks', w')
     \<and> length ks' = length ks"
proof (induction "length ks - i" arbitrary: i ks w)
  case 0
  then show ?case by (simp add: stages_done)
next
  case (Suc n)
  then have lt: "i < length ks" by simp
  obtain k w1 where ev: "evaluateFunc state time deltaTime ks tableau i w = (k, w1)"
    by (cases "evaluateFunc state time deltaTime ks tableau i w")
  have "n = length (ks[i := k]) - Suc i" using Suc.hyps(2) by simp
  from Suc.hyps(1)[OF this, of w1] show ?case
    by (simp add: stages_step[OF lt] ev)
qed

lemma weights_eq:
  "length (b tableau) \<le> length ks \<Longrightarrow>
   ExplicitRungeKutta_weights tableau ks i (dp, dv) =
     Inr (foldl (\<lambda>acc j. acc + b tableau ! j * vel (ks ! j)) dp [i..<length (b tableau)],
          foldl (\<lambda>acc j. acc + b tableau ! j * accel (ks ! j)) dv [i..<length (b tableau)])"
proof (induction "length (b tableau) - i" arbitrary: i dp dv)
  case 0
  then show ?case by (simp add: weights_done)
next
  case (Suc n)
  then have lt: "i < length (b tableau)" and lt': "i < length ks" by simp_all
  have "n = length (b tableau) - Suc i" using Suc.hyps(2) by simp
  from Suc.hyps(1)[OF this Suc.prems]
  show ?case by (simp add: weights_step[OF lt lt'] upt_conv_Cons[OF lt])
qed

lemma ERK_total:
  "\<exists>ks w' . ExplicitRungeKutta_stages state time deltaTime tableau evaluateFunc 0
             (replicate (length (b tableau)) DeltaState_default) w = Inr (ks, w')
    \<and> length ks = length (b tableau)
    \<and> ExplicitRungeKutta state time deltaTime tableau evaluateFunc w =
      Inr (state\<lparr>pos := pos state + deltaTime *
                    foldl (\<lambda>acc j. acc + b tableau ! j * vel (ks ! j)) 0 [0..<length (b tableau)],
                 ParticleState.vel := ParticleState.vel state + deltaTime *
                    foldl (\<lambda>acc j. acc + b tableau ! j * accel (ks ! j)) 0 [0..<length (b tableau)]\<rparr>, w')"
proof -
  obtain ks w' where st: "ExplicitRungeKutta_stages state time deltaTime tableau evaluateFunc 0
             (replicate (length (b tableau)) DeltaState_default) w = Inr (ks, w')"
    and len: "length ks = length (b tableau)"
    using stages_total[of state time deltaTime tableau evaluateFunc 0
        "replicate (length (b tableau)) DeltaState_default" w] by auto
  have "length (b tableau) \<le> length ks" using len by simp
  from weights_eq[OF this, of 0 0 0] st len show ?thesis
    by (simp add: ExplicitRungeKutta_def Let_def)
qed

lemma stages_traced:
  "\<exists>K. length K = length ks \<and> take i K = take i ks \<and>
       (\<forall>j. i \<le> j \<and> j < length ks \<longrightarrow>
            K ! j = g state time h (take j K @ drop j ks) tableau j) \<and>
       ExplicitRungeKutta_stages state time h tableau (traced_generic g) i ks calls =
         Inr (K, calls @ map (\<lambda>j. (state, time, h, take j K @ drop j ks, tableau, j))
                           [i..<length ks])"
proof (induction "length ks - i" arbitrary: i ks calls)
  case 0
  then show ?case by (simp add: stages_done)
next
  case (Suc n)
  then have lt: "i < length ks" by simp
  define k where "k = g state time h ks tableau i"
  define ks1 where "ks1 = ks[i := k]"
  define calls1 where "calls1 = calls @ [(state, time, h, ks, tableau, i)]"
  have len1: "length ks1 = length ks" by (simp add: ks1_def)
  have "n = length ks1 - Suc i" using Suc.hyps(2) by (simp add: ks1_def)
  from Suc.hyps(1)[OF this, of calls1]
  obtain K where lenK: "length K = length ks"
    and tk: "take (Suc i) K = take (Suc i) ks1"
    and later: "\<And>j. Suc i \<le> j \<Longrightarrow> j < length ks \<Longrightarrow>
                  K ! j = g state time h (take j K @ drop j ks1) tableau j"
    and run: "ExplicitRungeKutta_stages state time h tableau (traced_generic g) (Suc i) ks1 calls1 =
         Inr (K, calls1 @ map (\<lambda>j. (state, time, h, take j K @ drop j ks1, tableau, j))
                           [Suc i..<length ks])"
    by (auto simp: len1)
  have drop_later: "drop j ks1 = drop j ks" if "Suc i \<le> j" for j
    using that by (simp add: ks1_def)
  have "take i (take (Suc i) K) = take i (take (Suc i) ks1)" using tk by simp
  then have tki: "take i K = take i ks" by (simp add: ks1_def min_def)
  have "take (Suc i) K ! i = take (Suc i) ks1 ! i" using tk by simp
  then have Ki: "K ! i = k" using lt by (simp add: ks1_def)
  have whole: "take i K @ drop i ks = ks" by (simp add: tki)
  have vals: "K ! j = g state time h (take j K @ drop j ks) tableau j"
    if "i \<le> j" "j < length ks" for j
  proof (cases "j = i")
    case True
    then show ?thesis by (simp add: Ki whole k_def)
  next
    case False
    with that have "Suc i \<le> j" by simp
    with later[OF this that(2)] drop_later[OF this] show ?thesis by simp
  qed
  have maps: "map (\<lambda>j. (state, time, h, take j K @ drop j ks1, tableau, j)) [Suc i..<length ks]
            = map (\<lambda>j. (state, time, h, take j K @ drop j ks, tableau, j)) [Suc i..<length ks]"
    by (rule map_cong) (auto simp: drop_later)
  have "ExplicitRungeKutta_stages state time h tableau (traced_generic g) i ks calls =
        ExplicitRungeKutta_stages state time h tableau (traced_generic g) (Suc i) ks1 calls1"
    by (simp add: stages_step[OF lt] traced_generic_def k_def ks1_def calls1_def)
  also have "\<dots> = Inr (K, calls @ map (\<lambda>j. (state, time, h, take j K @ drop j ks, tableau, j))
                           [i..<length ks])"
    using run maps by (simp add: calls1_def upt_conv_Cons[OF lt] whole)
  finally show ?case using lenK tki vals by blast
qed

section \<open>Scaling the stage values\<close>



section \<open>Evaluators without side effects, and repeated steps\<close>

lemma stages_pure_world:
  "\<exists>K. ExplicitRungeKutta_stages state time h tableau (pure_generic g) i ks w = Inr (K, w)"
proof (induction "length ks - i" arbitrary: i ks)
  case 0
  then show ?case by (simp add: stages_done)
next
  case (Suc n)
  then have lt: "i < length ks" by simp
  have "n = length (ks[i := g state time h ks tableau i]) - Suc i" using Suc.hyps(2) by simp
  from Suc.hyps(1)[OF this] show ?case
    by (simp add: stages_step[OF lt] pure_generic_def)
qed

lemma Euler_steps_growth:
  assumes rate: "\<And>st t offset prev w. vel (fst (ev st t offset prev w)) = pos st"
  shows "pos (fst (Euler_steps n state time h ev w)) = (1 + h) ^ n * pos state"
proof (induction n arbitrary: state time w)
  case 0
  show ?case by simp
next
  case (Suc n)
  obtain state' w' where step: "Euler state time h ev w = (state', w')"
    by (cases "Euler state time h ev w")
  have "pos state' = pos state + h * vel (fst (ev state time h DeltaState_default w))"
    using step by (auto simp: Euler_def Let_def split: prod.splits)
  then have "pos state' = (1 + h) * pos state"
    by (simp add: rate algebra_simps)
  with Suc.IH[of state' "time + h" w'] show ?case
    by (simp add: step)
qed

section \<open>The single call of Euler\<close>

text \<open>
  \<^verbatim>\<open>Euler\<close> calls the evaluator once, with the whole step as the offset and the all-zero
  previous stage, and then adds \<open>h * k1.vel\<close> to \<open>pos\<close> and \<open>h * k1.accel\<close> to \<open>vel\<close>.
\<close>

lemma Euler_one_call_then_update:
  "Euler state time h (traced_fixed f) calls =
     (let k1 = f state time h DeltaState_default
      in (state\<lparr>pos := pos state + h * vel k1,
                ParticleState.vel := ParticleState.vel state + h * accel k1\<rparr>,
          calls @ [(state, time, h, DeltaState_default)]))"
  by (simp add: Euler_def traced_fixed_def Let_def)

section \<open>Exact arithmetic: a zero step and a tableau without stages\<close>

text \<open>
  Over the reals a step of \<open>0\<close> returns the state it was given, for every stepper and
  evaluator, and a tableau without stages leaves the state and the world as they were.
\<close>

lemma zero_deltaTime_is_identity_exact:
  "fst (Euler state time 0 ev w) = state \<and>
   fst (MidPoint state time 0 ev w) = state \<and>
   fst (Ralston state time 0 ev w) = state \<and>
   fst (RK4 state time 0 ev w) = state \<and>
   (\<exists>w'. ExplicitRungeKutta state time 0 tableau gev w = Inr (state, w'))"
proof -
  have "fst (Euler state time 0 ev w) = state"
    by (simp add: Euler_def Let_def split: prod.splits)
  moreover have "fst (MidPoint state time 0 ev w) = state"
    by (simp add: MidPoint_def Let_def split: prod.splits)
  moreover have "fst (Ralston state time 0 ev w) = state"
    by (simp add: Ralston_def Let_def split: prod.splits)
  moreover have "fst (RK4 state time 0 ev w) = state"
    by (simp add: RK4_def Let_def split: prod.splits)
  moreover have "\<exists>w'. ExplicitRungeKutta state time 0 tableau gev w = Inr (state, w')"
    using ERK_total[of state time 0 tableau gev w] by auto
  ultimately show ?thesis by blast
qed

lemma ExplicitRungeKutta_no_stages_exact:
  "b tableau = [] \<Longrightarrow> ExplicitRungeKutta state time h tableau ev w = Inr (state, w)"
  by (simp add: ExplicitRungeKutta_def stages_done weights_done)

section \<open>Rounding at particular numbers\<close>

lemma binade_from_eq:
  "e0 \<le> e \<Longrightarrow> e \<le> 1023 \<Longrightarrow> 2 powi e \<le> \<bar>x\<bar> \<Longrightarrow> (e < 1023 \<Longrightarrow> \<bar>x\<bar> < 2 powi (e + 1))
     \<Longrightarrow> binade_from e0 x = e"
proof (induction "nat (e - e0)" arbitrary: e0)
  case 0
  then have "e0 = e" by simp
  with 0 show ?case by (subst binade_from.simps) auto
next
  case (Suc n)
  then have lt: "e0 < e" by linarith
  have "(2::real) powi (e0 + 1) \<le> 2 powi e"
    using lt by (intro power_int_increasing) auto
  with Suc.prems have "2 powi (e0 + 1) \<le> \<bar>x\<bar>" by linarith
  moreover have "e0 < 1023" using lt Suc.prems by linarith
  ultimately have "binade_from e0 x = binade_from (e0 + 1) x"
    by (subst binade_from.simps) simp
  moreover have "binade_from (e0 + 1) x = e"
    using Suc.hyps(2) lt Suc.prems by (intro Suc.hyps(1)) auto
  ultimately show ?case by simp
qed

lemma binade_eq:
  "- 1022 \<le> e \<Longrightarrow> e \<le> 1023 \<Longrightarrow> 2 powi e \<le> \<bar>x\<bar> \<Longrightarrow> (e < 1023 \<Longrightarrow> \<bar>x\<bar> < 2 powi (e + 1))
     \<Longrightarrow> binade x = e"
  unfolding binade_def by (rule binade_from_eq)

lemma round_to_double_Finite:
  assumes "- 1022 \<le> e" "e \<le> 1023" "2 powi e \<le> \<bar>x\<bar>" "\<bar>x\<bar> < 2 powi (e + 1)"
    and "round_half_even (\<bar>x\<bar> / 2 powi (e - 52)) = n" "n \<noteq> 0"
    and "of_int n * 2 powi (e - 52) < (2 :: real) ^ 1024"
    and "y = sgn x * (of_int n * 2 powi (e - 52))"
  shows "round_to_double x = Finite y"
proof -
  have e: "binade x = e" using assms(1-4) by (intro binade_eq) auto
  have "(0 :: real) < 2 powi e" by (simp add: zero_less_power_int)
  with assms(3) have "0 < \<bar>x\<bar>" by linarith
  then have "x \<noteq> 0" by auto
  then show ?thesis
    using assms(5-8) by (simp add: round_to_double_def e Let_def)
qed

lemma round_to_double_overflow:
  assumes "2 ^ 1024 \<le> \<bar>x\<bar>"
  shows "round_to_double x = Infinity (x < 0)"
proof -
  have e: "binade x = 1023" using assms by (intro binade_eq) auto
  have x: "x \<noteq> 0" using assms by auto
  let ?q = "\<bar>x\<bar> / 2 powi (1023 - 52)"
  have q: "2 ^ 53 \<le> ?q" using assms by (simp add: field_simps)
  have "of_int \<lfloor>?q\<rfloor> \<le> (of_int (round_half_even ?q) :: real)"
    by (simp add: round_half_even_def Let_def)
  moreover have "(2 :: real) ^ 53 \<le> of_int \<lfloor>?q\<rfloor>"
    using q by (metis of_int_numeral of_int_power of_int_le_iff le_floor_iff)
  ultimately have n: "(2 :: real) ^ 53 \<le> of_int (round_half_even ?q)" by linarith
  then have "round_half_even ?q \<noteq> 0" by auto
  moreover have "(2 :: real) ^ 1024 \<le> of_int (round_half_even ?q) * 2 powi (1023 - 52)"
  proof -
    have "(2 :: real) ^ 1024 = 2 ^ 53 * 2 powi (1023 - 52)" by simp
    also have "\<dots> \<le> of_int (round_half_even ?q) * 2 powi (1023 - 52)"
      using n by (intro mult_right_mono) auto
    finally show ?thesis .
  qed
  ultimately show ?thesis
    using x by (simp add: round_to_double_def e Let_def)
qed

lemma round_to_double_1: "round_to_double 1 = Finite 1"
  by (rule round_to_double_Finite[where e = 0 and n = "2 ^ 52"]) (simp_all add: round_half_even_def)





lemma round_to_double_2_1023: "round_to_double (2 ^ 1023) = Finite (2 ^ 1023)"
  by (rule round_to_double_Finite[where e = 1023 and n = "2 ^ 52"]) (simp_all add: round_half_even_def)

lemma round_to_double_2_1024: "round_to_double (2 ^ 1023 + 2 ^ 1023) = Infinity False"
  using round_to_double_overflow[of "2 ^ 1023 + 2 ^ 1023"] by simp

section \<open>Zeros, infinities and NaN in the operations\<close>

lemmas double_ops = plus_double_def times_double_def divide_double_def

lemma finite_times_zero: "is_finite d \<Longrightarrow> is_zero (d * Zero s)"
  by (cases d) (simp_all add: double_ops)

lemma zero_div_Finite: "is_zero z \<Longrightarrow> is_zero (z / Finite y)"
  by (cases z) (simp_all add: double_ops)

lemma plus_zero_same: "well_formed p \<Longrightarrow> is_zero z \<Longrightarrow> same_value p (p + z)"
  by (cases p; cases z) (simp_all add: double_ops)

lemma plus_NaN: "p + NaN = NaN"
  by (cases p) (simp_all add: double_ops)

lemma plus_zero_times_cases:
  "well_formed p \<Longrightarrow> is_zero z \<Longrightarrow>
   (if is_finite x then same_value p (p + z * x) else p + z * x = NaN)"
  by (cases x; cases z; cases p) (simp_all add: double_ops)

section \<open>The two loops over doubles\<close>

lemma stages64_step:
  "i < length ks \<Longrightarrow>
   ExplicitRungeKutta_stages64 state time deltaTime tableau evaluateFunc i ks w =
     (case evaluateFunc state time deltaTime ks tableau i w of (k, w') \<Rightarrow>
        ExplicitRungeKutta_stages64 state time deltaTime tableau evaluateFunc (Suc i) (ks[i := k]) w')"
  by (subst ExplicitRungeKutta_stages64.simps) (simp add: store_at_def split: prod.splits)

lemma stages64_done:
  "\<not> i < length ks \<Longrightarrow>
   ExplicitRungeKutta_stages64 state time deltaTime tableau evaluateFunc i ks w = Inr (ks, w)"
  by (subst ExplicitRungeKutta_stages64.simps) simp

lemma weights64_step:
  "i < length (b64 tableau) \<Longrightarrow> i < length ks \<Longrightarrow>
   ExplicitRungeKutta_weights64 tableau ks i (dp, dv) =
     ExplicitRungeKutta_weights64 tableau ks (Suc i)
       (dp + b64 tableau ! i * vel64 (ks ! i), dv + b64 tableau ! i * accel64 (ks ! i))"
  by (subst ExplicitRungeKutta_weights64.simps) (simp add: load_at_def)

lemma weights64_done:
  "\<not> i < length (b64 tableau) \<Longrightarrow>
   ExplicitRungeKutta_weights64 tableau ks i (dp, dv) = Inr (dp, dv)"
  by (subst ExplicitRungeKutta_weights64.simps) simp

lemma stages64_total:
  "\<exists>ks' w'. ExplicitRungeKutta_stages64 state time deltaTime tableau evaluateFunc i ks w = Inr (ks', w')
     \<and> length ks' = length ks"
proof (induction "length ks - i" arbitrary: i ks w)
  case 0
  then show ?case by (simp add: stages64_done)
next
  case (Suc n)
  then have lt: "i < length ks" by simp
  obtain k w1 where ev: "evaluateFunc state time deltaTime ks tableau i w = (k, w1)"
    by (cases "evaluateFunc state time deltaTime ks tableau i w")
  have "n = length (ks[i := k]) - Suc i" using Suc.hyps(2) by simp
  from Suc.hyps(1)[OF this, of w1] show ?case
    by (simp add: stages64_step[OF lt] ev)
qed

lemma weights64_total:
  "length (b64 tableau) \<le> length ks \<Longrightarrow>
   \<exists>dp' dv'. ExplicitRungeKutta_weights64 tableau ks i (dp, dv) = Inr (dp', dv')"
proof (induction "length (b64 tableau) - i" arbitrary: i dp dv)
  case 0
  then show ?case by (simp add: weights64_done)
next
  case (Suc n)
  then have lt: "i < length (b64 tableau)" and lt': "i < length ks" by simp_all
  have "n = length (b64 tableau) - Suc i" using Suc.hyps(2) by simp
  from Suc.hyps(1)[OF this Suc.prems]
  show ?case by (simp add: weights64_step[OF lt lt'])
qed

lemma ERK64_total:
  "\<exists>dp dv w'. ExplicitRungeKutta64 state time deltaTime tableau evaluateFunc w =
      Inr (state\<lparr>pos64 := pos64 state + deltaTime * dp,
                 ParticleState64.vel64 := ParticleState64.vel64 state + deltaTime * dv\<rparr>, w')"
proof -
  obtain ks w' where st: "ExplicitRungeKutta_stages64 state time deltaTime tableau evaluateFunc 0
             (replicate (length (b64 tableau)) DeltaState64_default) w = Inr (ks, w')"
    and len: "length ks = length (b64 tableau)"
    using stages64_total[of state time deltaTime tableau evaluateFunc 0
        "replicate (length (b64 tableau)) DeltaState64_default" w] by auto
  have "length (b64 tableau) \<le> length ks" using len by simp
  from weights64_total[OF this, of 0 "Zero False" "Zero False"]
  obtain dp dv where "ExplicitRungeKutta_weights64 tableau ks 0 (Zero False, Zero False) = Inr (dp, dv)"
    by blast
  with st show ?thesis
    by (intro exI[of _ dp] exI[of _ dv] exI[of _ w']) (simp add: ExplicitRungeKutta64_def Let_def)
qed

section \<open>The claims\<close>

text \<open>
  C1. \<^verbatim>\<open>ExplicitRungeKutta\<close> computes the stages for \<open>i = 0, \<dots>, s - 1\<close> in increasing
  order, \<open>s\<close> the length of \<open>tableau.b\<close>: the log of a traced evaluator holds exactly one call
  per stage, in that order, and the \<open>ks\<close> argument of the call of stage \<open>i\<close> holds the
  values of the stages \<open>0..i-1\<close> followed by default values.  Afterwards \<open>pos\<close> grows by
  \<open>deltaTime\<close> times the sum of \<open>b[i] * ks[i].vel\<close> and \<open>vel\<close> by \<open>deltaTime\<close> times the sum
  of \<open>b[i] * ks[i].accel\<close>, both summed from the left in the order \<open>i = 0, \<dots>, s - 1\<close>.
\<close>

theorem ExplicitRungeKutta_stages_in_order:
  "\<exists>K. length K = length (b tableau) \<and>
       (\<forall>i < length (b tableau).
            K ! i = g state time h
                      (take i K @ replicate (length (b tableau) - i) DeltaState_default) tableau i) \<and>
       ExplicitRungeKutta state time h tableau (traced_generic g) calls =
         Inr (state\<lparr>pos := pos state + h *
                      foldl (\<lambda>acc i. acc + b tableau ! i * vel (K ! i)) 0 [0..<length (b tableau)],
                   ParticleState.vel := ParticleState.vel state + h *
                      foldl (\<lambda>acc i. acc + b tableau ! i * accel (K ! i)) 0 [0..<length (b tableau)]\<rparr>,
              calls @ map (\<lambda>i. (state, time, h,
                                  take i K @ replicate (length (b tableau) - i) DeltaState_default,
                                  tableau, i))
                          [0..<length (b tableau)])"
proof -
  let ?n = "length (b tableau)"
  let ?ks0 = "replicate ?n DeltaState_default"
  from stages_traced[of ?ks0 0 g state time h tableau calls]
  obtain K where lenK: "length K = ?n"
    and vals: "\<And>j. j < ?n \<Longrightarrow> K ! j = g state time h (take j K @ drop j ?ks0) tableau j"
    and run: "ExplicitRungeKutta_stages state time h tableau (traced_generic g) 0 ?ks0 calls =
         Inr (K, calls @ map (\<lambda>j. (state, time, h, take j K @ drop j ?ks0, tableau, j)) [0..<?n])"
    by auto
  have "?n \<le> length K" using lenK by simp
  from weights_eq[OF this, of 0 0 0] run vals lenK
  show ?thesis
    by (intro exI[of _ K]) (simp add: ExplicitRungeKutta_def Let_def)
qed

theorem ExplicitRungeKutta_stages_in_order_witness:
  "ExplicitRungeKutta \<lparr>pos = 0, vel = 0\<rparr> 0 1 \<lparr>a = [[0, 0], [1, 0]], b = [1/2, 1/2], c = [0, 1]\<rparr>
     (traced_generic (\<lambda>state time h ks tableau i.
        \<lparr>vel = 1 + sum_list (map vel ks), accel = real i\<rparr>)) []
   = Inr (\<lparr>pos = 3/2, vel = 1/2\<rparr>,
          [(\<lparr>pos = 0, vel = 0\<rparr>, 0, 1, [DeltaState_default, DeltaState_default],
            \<lparr>a = [[0, 0], [1, 0]], b = [1/2, 1/2], c = [0, 1]\<rparr>, 0),
           (\<lparr>pos = 0, vel = 0\<rparr>, 0, 1, [\<lparr>vel = 1, accel = 0\<rparr>, DeltaState_default],
            \<lparr>a = [[0, 0], [1, 0]], b = [1/2, 1/2], c = [0, 1]\<rparr>, 1)])"
proof -
  let ?T = "\<lparr>a = [[0, 0], [1, 0]], b = [1/2, 1/2], c = [0, 1]\<rparr>"
  let ?g = "\<lambda>(state :: ParticleState) (time :: real) (h :: real) ks (tableau :: ButcherTableau) i.
              \<lparr>vel = 1 + sum_list (map vel ks), accel = real i\<rparr>"
  let ?st = "\<lparr>pos = 0, vel = 0\<rparr>"
  have two: "[0..<2] = [0, Suc 0]" by (simp add: upt_rec)
  from ExplicitRungeKutta_stages_in_order[of ?T ?g ?st 0 1 "[]"]
  obtain K where len0: "length K = length (b ?T)"
    and vals0: "\<forall>i < length (b ?T).
          K ! i = ?g ?st 0 1 (take i K @ replicate (length (b ?T) - i) DeltaState_default) ?T i"
    and run0: "ExplicitRungeKutta ?st 0 1 ?T (traced_generic ?g) [] =
         Inr (?st\<lparr>pos := pos ?st + 1 *
                      foldl (\<lambda>acc i. acc + b ?T ! i * vel (K ! i)) 0 [0..<length (b ?T)],
                   ParticleState.vel := ParticleState.vel ?st + 1 *
                      foldl (\<lambda>acc i. acc + b ?T ! i * accel (K ! i)) 0 [0..<length (b ?T)]\<rparr>,
              [] @ map (\<lambda>i. (?st, 0, 1,
                                 take i K @ replicate (length (b ?T) - i) DeltaState_default, ?T, i))
                          [0..<length (b ?T)])"
    by blast
  have len: "length K = 2" using len0 by simp
  obtain x y where K: "K = [x, y]"
    using len by (cases K; cases "tl K") auto
  from vals0 have "K ! 0 = ?g ?st 0 1 (take 0 K @ replicate (length (b ?T) - 0) DeltaState_default) ?T 0"
    by simp
  then have x: "x = \<lparr>vel = 1, accel = 0\<rparr>"
    by (simp add: K DeltaState_default_def)
  from vals0 have "K ! 1 = ?g ?st 0 1 (take 1 K @ replicate (length (b ?T) - 1) DeltaState_default) ?T 1"
    by simp
  then have y: "y = \<lparr>vel = 2, accel = 1\<rparr>"
    by (simp add: K x DeltaState_default_def)
  show ?thesis
    using run0 by (simp add: K x y two numeral_2_eq_2)
qed

text \<open>
  C2. \<^verbatim>\<open>RK4\<close> calls the evaluator exactly four times, with the offsets \<open>0\<close>, \<open>h/2\<close>,
  \<open>h/2\<close>, \<open>h\<close> and the previous stages \<open>zero\<close>, \<open>k1\<close>, \<open>k2\<close>, \<open>k3\<close>, in that order, and
  then adds \<open>(h/6) * (k1 + 2 * (k2 + k3) + k4)\<close> of the \<open>vel\<close> components to \<open>pos\<close> and of the
  \<open>accel\<close> components to \<open>vel\<close>.
\<close>

theorem RK4_four_calls_then_update:
  "RK4 state time h (traced_fixed f) calls =
     (let k1 = f state time 0 DeltaState_default;
          k2 = f state time (h / 2) k1;
          k3 = f state time (h / 2) k2;
          k4 = f state time h k3
      in (state\<lparr>pos := pos state + (h / 6) * (vel k1 + 2 * (vel k2 + vel k3) + vel k4),
                ParticleState.vel := ParticleState.vel state
                  + (h / 6) * (accel k1 + 2 * (accel k2 + accel k3) + accel k4)\<rparr>,
          calls @ [(state, time, 0, DeltaState_default), (state, time, h / 2, k1),
                   (state, time, h / 2, k2), (state, time, h, k3)]))"
  by (simp add: RK4_def traced_fixed_def Let_def)

text \<open>
  C3. \<^verbatim>\<open>MidPoint\<close> calls the evaluator exactly once, with the offset \<open>h/2\<close> and the
  all-zero previous stage, and then sets \<open>pos\<close> to \<open>pos + h * (k1.vel + (h/2) * k1.vel)\<close>
  and \<open>vel\<close> to \<open>vel + h * (1.5 * k1.accel)\<close>.
\<close>

theorem MidPoint_one_call_then_update:
  "MidPoint state time h (traced_fixed f) calls =
     (let k1 = f state time (h / 2) DeltaState_default
      in (state\<lparr>pos := pos state + h * (vel k1 + (h / 2) * vel k1),
                ParticleState.vel := ParticleState.vel state + h * (1.5 * accel k1)\<rparr>,
          calls @ [(state, time, h / 2, DeltaState_default)]))"
  by (simp add: MidPoint_def traced_fixed_def Let_def)

text \<open>
  C4. The claim has \<^verbatim>\<open>Euler\<close> call the evaluator with the time offset \<open>0\<close>, as the comment
  above the function (\<open>y_{n+1} = y_n + h * f(t_n, y_n)\<close>) and the first stage of \<^verbatim>\<open>Ralston\<close>
  and \<^verbatim>\<open>RK4\<close> have it.  The source passes \<^verbatim>\<open>deltaTime\<close>: on the state \<open>(0, 0)\<close> at time
  \<open>0\<close> with step \<open>1\<close> and an evaluator that returns its offset as the velocity, the one call
  logged has the offset \<open>1\<close> and the position becomes \<open>1\<close>, where a call at offset \<open>0\<close> would
  leave it at \<open>0\<close>.
\<close>

theorem Euler_offset_is_deltaTime:
  "Euler \<lparr>pos = 0, vel = 0\<rparr> 0 1
     (traced_fixed (\<lambda>state time offset prev. \<lparr>vel = offset, accel = 0\<rparr>)) []
   = (\<lparr>pos = 1, vel = 0\<rparr>, [(\<lparr>pos = 0, vel = 0\<rparr>, 0, 1, DeltaState_default)])"
  by (simp add: Euler_def traced_fixed_def Let_def)

text \<open>
  C5. In doubles the claim fails: \<^verbatim>\<open>RK4\<close> with \<open>deltaTime = 0\<close> and an evaluator that returns
  the finite velocity \<open>2^1023\<close> at every stage adds \<open>k2.vel + k3.vel\<close> to an infinity, and
  \<open>0\<close> times an infinity is NaN.  What holds for every evaluator, with \<open>deltaTime\<close> a zero of
  either sign and \<open>pos\<close>, \<open>vel\<close> holding doubles: each of the five steppers leaves \<open>pos\<close> at its
  value (a zero may change its sign) when the combination of stage values that it
  multiplies with the step is finite, and turns it into NaN when that combination is an
  infinity or NaN; likewise \<open>vel\<close>.  For \<^verbatim>\<open>Euler\<close> the combination is the stage value itself.
\<close>

theorem zero_deltaTime_unchanged_unless_overflow:
  assumes "well_formed (pos64 state)" and "well_formed (ParticleState64.vel64 state)"
    and "is_zero deltaTime"
  shows
   "(let k1 = fst (ev state time deltaTime DeltaState64_default w);
         state' = fst (Euler64 state time deltaTime ev w)
     in (if is_finite (vel64 k1)
         then same_value (pos64 state) (pos64 state') else pos64 state' = NaN) \<and>
        (if is_finite (accel64 k1)
         then same_value (ParticleState64.vel64 state) (ParticleState64.vel64 state')
         else ParticleState64.vel64 state' = NaN)) \<and>
    (let k1 = fst (ev state time (Finite 0.5 * deltaTime) DeltaState64_default w);
         state' = fst (MidPoint64 state time deltaTime ev w)
     in (if is_finite (vel64 k1 + deltaTime / Finite 2 * vel64 k1)
         then same_value (pos64 state) (pos64 state') else pos64 state' = NaN) \<and>
        (if is_finite (accel64 k1 * Finite 1.5)
         then same_value (ParticleState64.vel64 state) (ParticleState64.vel64 state')
         else ParticleState64.vel64 state' = NaN)) \<and>
    (let (k1, w1) = ev state time (Zero False) DeltaState64_default w;
         (k2, w2) = ev state time (Finite 2 / Finite 3 * deltaTime) k1 w1;
         state' = fst (Ralston64 state time deltaTime ev w)
     in (if is_finite (Finite 0.25 * vel64 k1 + Finite 0.75 * vel64 k2)
         then same_value (pos64 state) (pos64 state') else pos64 state' = NaN) \<and>
        (if is_finite (Finite 0.25 * accel64 k1 + Finite 0.75 * accel64 k2)
         then same_value (ParticleState64.vel64 state) (ParticleState64.vel64 state')
         else ParticleState64.vel64 state' = NaN)) \<and>
    (let (k1, w1) = ev state time (Zero False) DeltaState64_default w;
         (k2, w2) = ev state time (Finite 0.5 * deltaTime) k1 w1;
         (k3, w3) = ev state time (Finite 0.5 * deltaTime) k2 w2;
         (k4, w4) = ev state time deltaTime k3 w3;
         state' = fst (RK4_64 state time deltaTime ev w)
     in (if is_finite (vel64 k1 + Finite 2 * (vel64 k2 + vel64 k3) + vel64 k4)
         then same_value (pos64 state) (pos64 state') else pos64 state' = NaN) \<and>
        (if is_finite (accel64 k1 + Finite 2 * (accel64 k2 + accel64 k3) + accel64 k4)
         then same_value (ParticleState64.vel64 state) (ParticleState64.vel64 state')
         else ParticleState64.vel64 state' = NaN)) \<and>
    (\<exists>ks w' deltaPos deltaVel state'.
        ExplicitRungeKutta_stages64 state time deltaTime tableau gev 0
          (replicate (length (b64 tableau)) DeltaState64_default) w = Inr (ks, w') \<and>
        ExplicitRungeKutta_weights64 tableau ks 0 (Zero False, Zero False) = Inr (deltaPos, deltaVel) \<and>
        ExplicitRungeKutta64 state time deltaTime tableau gev w = Inr (state', w') \<and>
        (if is_finite deltaPos
         then same_value (pos64 state) (pos64 state') else pos64 state' = NaN) \<and>
        (if is_finite deltaVel
         then same_value (ParticleState64.vel64 state) (ParticleState64.vel64 state')
         else ParticleState64.vel64 state' = NaN))"
proof -
  note z = plus_zero_times_cases[OF assms(1) assms(3)] plus_zero_times_cases[OF assms(2) assms(3)]
  have z6: "is_zero (deltaTime / Finite 6)" using assms(3) by (rule zero_div_Finite)
  note z' = plus_zero_times_cases[OF assms(1) z6] plus_zero_times_cases[OF assms(2) z6]
  have e: "let k1 = fst (ev state time deltaTime DeltaState64_default w);
         state' = fst (Euler64 state time deltaTime ev w)
     in (if is_finite (vel64 k1)
         then same_value (pos64 state) (pos64 state') else pos64 state' = NaN) \<and>
        (if is_finite (accel64 k1)
         then same_value (ParticleState64.vel64 state) (ParticleState64.vel64 state')
         else ParticleState64.vel64 state' = NaN)"
    using z[of "vel64 (fst (ev state time deltaTime DeltaState64_default w))"]
      z[of "accel64 (fst (ev state time deltaTime DeltaState64_default w))"]
    by (simp add: Euler64_def Let_def case_prod_beta)
  have m: "let k1 = fst (ev state time (Finite 0.5 * deltaTime) DeltaState64_default w);
         state' = fst (MidPoint64 state time deltaTime ev w)
     in (if is_finite (vel64 k1 + deltaTime / Finite 2 * vel64 k1)
         then same_value (pos64 state) (pos64 state') else pos64 state' = NaN) \<and>
        (if is_finite (accel64 k1 * Finite 1.5)
         then same_value (ParticleState64.vel64 state) (ParticleState64.vel64 state')
         else ParticleState64.vel64 state' = NaN)"
    unfolding Let_def MidPoint64_def case_prod_beta
    using z by simp
  have r: "let (k1, w1) = ev state time (Zero False) DeltaState64_default w;
         (k2, w2) = ev state time (Finite 2 / Finite 3 * deltaTime) k1 w1;
         state' = fst (Ralston64 state time deltaTime ev w)
     in (if is_finite (Finite 0.25 * vel64 k1 + Finite 0.75 * vel64 k2)
         then same_value (pos64 state) (pos64 state') else pos64 state' = NaN) \<and>
        (if is_finite (Finite 0.25 * accel64 k1 + Finite 0.75 * accel64 k2)
         then same_value (ParticleState64.vel64 state) (ParticleState64.vel64 state')
         else ParticleState64.vel64 state' = NaN)"
    unfolding Let_def Ralston64_def case_prod_beta
    using z by simp
  have q: "let (k1, w1) = ev state time (Zero False) DeltaState64_default w;
         (k2, w2) = ev state time (Finite 0.5 * deltaTime) k1 w1;
         (k3, w3) = ev state time (Finite 0.5 * deltaTime) k2 w2;
         (k4, w4) = ev state time deltaTime k3 w3;
         state' = fst (RK4_64 state time deltaTime ev w)
     in (if is_finite (vel64 k1 + Finite 2 * (vel64 k2 + vel64 k3) + vel64 k4)
         then same_value (pos64 state) (pos64 state') else pos64 state' = NaN) \<and>
        (if is_finite (accel64 k1 + Finite 2 * (accel64 k2 + accel64 k3) + accel64 k4)
         then same_value (ParticleState64.vel64 state) (ParticleState64.vel64 state')
         else ParticleState64.vel64 state' = NaN)"
    unfolding Let_def RK4_64_def case_prod_beta
    using z' by simp
  have g: "\<exists>ks w' deltaPos deltaVel state'.
        ExplicitRungeKutta_stages64 state time deltaTime tableau gev 0
          (replicate (length (b64 tableau)) DeltaState64_default) w = Inr (ks, w') \<and>
        ExplicitRungeKutta_weights64 tableau ks 0 (Zero False, Zero False) = Inr (deltaPos, deltaVel) \<and>
        ExplicitRungeKutta64 state time deltaTime tableau gev w = Inr (state', w') \<and>
        (if is_finite deltaPos
         then same_value (pos64 state) (pos64 state') else pos64 state' = NaN) \<and>
        (if is_finite deltaVel
         then same_value (ParticleState64.vel64 state) (ParticleState64.vel64 state')
         else ParticleState64.vel64 state' = NaN)"
  proof -
    obtain ks w' where st: "ExplicitRungeKutta_stages64 state time deltaTime tableau gev 0
             (replicate (length (b64 tableau)) DeltaState64_default) w = Inr (ks, w')"
      and len: "length ks = length (b64 tableau)"
      using stages64_total[of state time deltaTime tableau gev 0
          "replicate (length (b64 tableau)) DeltaState64_default" w] by auto
    have "length (b64 tableau) \<le> length ks" using len by simp
    from weights64_total[OF this, of 0 "Zero False" "Zero False"]
    obtain dp dv where wt: "ExplicitRungeKutta_weights64 tableau ks 0 (Zero False, Zero False) = Inr (dp, dv)"
      by blast
    let ?s = "state\<lparr>pos64 := pos64 state + deltaTime * dp,
                 ParticleState64.vel64 := ParticleState64.vel64 state + deltaTime * dv\<rparr>"
    have "ExplicitRungeKutta64 state time deltaTime tableau gev w = Inr (?s, w')"
      by (simp add: ExplicitRungeKutta64_def st wt Let_def)
    with st wt z[of dp] z[of dv] show ?thesis
      by (intro exI[of _ ks] exI[of _ w'] exI[of _ dp] exI[of _ dv] exI[of _ ?s]) simp
  qed
  from e m r q g show ?thesis by blast
qed

theorem zero_deltaTime_unchanged_unless_overflow_witness:
  "well_formed (pos64 \<lparr>pos64 = Finite 1, vel64 = Zero True\<rparr>) \<and>
   well_formed (ParticleState64.vel64 \<lparr>pos64 = Finite 1, vel64 = Zero True\<rparr>) \<and>
   is_zero (Zero True) \<and>
   is_finite (vel64 (fst (counting_fixed64 \<lparr>vel64 = Finite 3, accel64 = Finite 1\<rparr>
        \<lparr>pos64 = Finite 1, vel64 = Zero True\<rparr> (Zero False) (Zero True) DeltaState64_default 0))) \<and>
   same_value (Finite 1)
     (pos64 (fst (Euler64 \<lparr>pos64 = Finite 1, vel64 = Zero True\<rparr> (Zero False) (Zero True)
        (counting_fixed64 \<lparr>vel64 = Finite 3, accel64 = Finite 1\<rparr>) 0))) \<and>
   same_value (Zero True)
     (ParticleState64.vel64 (fst (Euler64 \<lparr>pos64 = Finite 1, vel64 = Zero True\<rparr> (Zero False) (Zero True)
        (counting_fixed64 \<lparr>vel64 = Finite 3, accel64 = Finite 1\<rparr>) 0)))"
  using zero_deltaTime_unchanged_unless_overflow[of "\<lparr>pos64 = Finite 1, vel64 = Zero True\<rparr>" "Zero True"
      "counting_fixed64 \<lparr>vel64 = Finite 3, accel64 = Finite 1\<rparr>" "Zero False" 0]
    round_to_double_1
  by (simp add: counting_fixed64_def Let_def)

theorem zero_deltaTime_overflow_counterexample:
  "well_formed (Finite (2 ^ 1023)) \<and>
   RK4_64 \<lparr>pos64 = Finite 1, vel64 = Finite 1\<rparr> (Zero False) (Zero False)
     (constant_fixed64 \<lparr>vel64 = Finite (2 ^ 1023), accel64 = Zero False\<rparr>) ()
   = (\<lparr>pos64 = NaN, vel64 = Finite 1\<rparr>, ())"
  using round_to_double_2_1023 round_to_double_2_1024 round_to_double_1
  by (simp add: RK4_64_def constant_fixed64_def Let_def double_ops)

text \<open>
  C6. On the tableau of Ralston's method, with a generic evaluator that returns for stage
  \<open>0\<close> what the fixed-stage evaluator returns at offset \<open>0\<close> with the all-zero previous
  stage, and for stage \<open>1\<close> what it returns at offset \<open>a[1][0] * h\<close> with the previous stage
  \<open>ks[0]\<close>, \<^verbatim>\<open>ExplicitRungeKutta\<close> returns the state (and the evaluator's world) that
  \<^verbatim>\<open>Ralston\<close> returns, in exact arithmetic.
\<close>

theorem ExplicitRungeKutta_Ralston_tableau_eq_Ralston:
  assumes stage0: "\<And>ks w. length ks = 2 \<Longrightarrow>
             g state time h ks Ralston_tableau 0 w = f state time 0 DeltaState_default w"
    and stage1: "\<And>ks w. length ks = 2 \<Longrightarrow>
             g state time h ks Ralston_tableau 1 w =
               f state time (a Ralston_tableau ! 1 ! 0 * h) (ks ! 0) w"
  shows "ExplicitRungeKutta state time h Ralston_tableau g w = Inr (Ralston state time h f w)"
proof -
  let ?z = DeltaState_default
  obtain k1 w1 where e1: "f state time 0 ?z w = (k1, w1)"
    by (cases "f state time 0 ?z w")
  obtain k2 w2 where e2: "f state time (2 / 3 * h) k1 w1 = (k2, w2)"
    by (cases "f state time (2 / 3 * h) k1 w1")
  have g0: "g state time h [?z, ?z] Ralston_tableau 0 w = (k1, w1)"
    using stage0[of "[?z, ?z]" w] e1 by simp
  have g1: "g state time h [k1, ?z] Ralston_tableau (Suc 0) w1 = (k2, w2)"
    using stage1[of "[k1, ?z]" w1] e2 by (simp add: Ralston_tableau_def)
  have len: "length (b Ralston_tableau) = Suc (Suc 0)"
    by (simp add: Ralston_tableau_def)
  have stages: "ExplicitRungeKutta_stages state time h Ralston_tableau g 0 [?z, ?z] w
                  = Inr ([k1, k2], w2)"
    by (simp add: stages_step stages_done g0 g1)
  have weights: "ExplicitRungeKutta_weights Ralston_tableau [k1, k2] 0 (0, 0)
                  = Inr (1/4 * vel k1 + 3/4 * vel k2, 1/4 * accel k1 + 3/4 * accel k2)"
    by (simp add: weights_step weights_done len) (simp add: Ralston_tableau_def)
  show ?thesis
    using e1 e2 by (simp add: ExplicitRungeKutta_def len stages weights Ralston_def Let_def)
qed

theorem ExplicitRungeKutta_Ralston_tableau_eq_Ralston_witness:
  "ExplicitRungeKutta \<lparr>pos = 1, vel = 0\<rparr> 0 (1/2) Ralston_tableau
     (\<lambda>state time h ks tableau i calls.
        if i = 0 then (\<lparr>vel = ParticleState.vel state, accel = - pos state\<rparr>, Suc calls)
        else (\<lparr>vel = ParticleState.vel state + a tableau ! i ! (i - 1) * h * accel (ks ! (i - 1)),
               accel = - pos state - a tableau ! i ! (i - 1) * h * vel (ks ! (i - 1))\<rparr>, Suc calls))
     (0 :: nat)
   = Inr (Ralston \<lparr>pos = 1, vel = 0\<rparr> 0 (1/2)
            (\<lambda>state time offset prev calls.
               (\<lparr>vel = ParticleState.vel state + offset * accel prev,
                 accel = - pos state - offset * vel prev\<rparr>, Suc calls))
            (0 :: nat))
   \<and> Ralston \<lparr>pos = 1, vel = 0\<rparr> 0 (1/2)
            (\<lambda>state time offset prev calls.
               (\<lparr>vel = ParticleState.vel state + offset * accel prev,
                 accel = - pos state - offset * vel prev\<rparr>, Suc calls))
            (0 :: nat)
       = (\<lparr>pos = 7/8, vel = - (1/2)\<rparr>, 2)"
proof
  show "ExplicitRungeKutta \<lparr>pos = 1, vel = 0\<rparr> 0 (1/2) Ralston_tableau
     (\<lambda>state time h ks tableau i calls.
        if i = 0 then (\<lparr>vel = ParticleState.vel state, accel = - pos state\<rparr>, Suc calls)
        else (\<lparr>vel = ParticleState.vel state + a tableau ! i ! (i - 1) * h * accel (ks ! (i - 1)),
               accel = - pos state - a tableau ! i ! (i - 1) * h * vel (ks ! (i - 1))\<rparr>, Suc calls))
     (0 :: nat)
   = Inr (Ralston \<lparr>pos = 1, vel = 0\<rparr> 0 (1/2)
            (\<lambda>state time offset prev calls.
               (\<lparr>vel = ParticleState.vel state + offset * accel prev,
                 accel = - pos state - offset * vel prev\<rparr>, Suc calls))
            (0 :: nat))"
    by (rule ExplicitRungeKutta_Ralston_tableau_eq_Ralston) (simp_all add: DeltaState_default_def)
  show "Ralston \<lparr>pos = 1, vel = 0\<rparr> 0 (1/2)
            (\<lambda>state time offset prev calls.
               (\<lparr>vel = ParticleState.vel state + offset * accel prev,
                 accel = - pos state - offset * vel prev\<rparr>, Suc calls))
            (0 :: nat)
       = (\<lparr>pos = 7/8, vel = - (1/2)\<rparr>, 2)"
    by (simp add: Ralston_def DeltaState_default_def Let_def)
qed




text \<open>
  C8. No stepper fails: the four fixed steppers have no failing operation, and every
  vector access of \<^verbatim>\<open>ExplicitRungeKutta\<close> is in range, for every tableau and evaluator.
  A stepper changes nothing of the state but \<open>pos\<close> and \<open>vel\<close>, and a side-effect free
  evaluator leaves the world as it was.  The time, the step and the tableau are passed by
  value or by constant reference: they are arguments, not results.
\<close>

theorem steppers_total_and_frame:
  "ParticleState.more (fst (Euler state time h ev w)) = ParticleState.more state \<and>
   ParticleState.more (fst (MidPoint state time h ev w)) = ParticleState.more state \<and>
   ParticleState.more (fst (Ralston state time h ev w)) = ParticleState.more state \<and>
   ParticleState.more (fst (RK4 state time h ev w)) = ParticleState.more state \<and>
   (\<exists>state' w'. ExplicitRungeKutta state time h tableau gev w = Inr (state', w')
       \<and> ParticleState.more state' = ParticleState.more state) \<and>
   snd (Euler state time h (pure_fixed f) w) = w \<and>
   snd (MidPoint state time h (pure_fixed f) w) = w \<and>
   snd (Ralston state time h (pure_fixed f) w) = w \<and>
   snd (RK4 state time h (pure_fixed f) w) = w \<and>
   (\<exists>state'. ExplicitRungeKutta state time h tableau (pure_generic g) w = Inr (state', w))"
proof (intro conjI)
  show "ParticleState.more (fst (Euler state time h ev w)) = ParticleState.more state"
    by (simp add: Euler_def Let_def split: prod.splits)
  show "ParticleState.more (fst (MidPoint state time h ev w)) = ParticleState.more state"
    by (simp add: MidPoint_def Let_def split: prod.splits)
  show "ParticleState.more (fst (Ralston state time h ev w)) = ParticleState.more state"
    by (simp add: Ralston_def Let_def split: prod.splits)
  show "ParticleState.more (fst (RK4 state time h ev w)) = ParticleState.more state"
    by (simp add: RK4_def Let_def split: prod.splits)
  show "\<exists>state' w'. ExplicitRungeKutta state time h tableau gev w = Inr (state', w')
       \<and> ParticleState.more state' = ParticleState.more state"
    using ERK_total[of state time h tableau gev w] by auto
  show "snd (Euler state time h (pure_fixed f) w) = w"
    by (simp add: Euler_def pure_fixed_def Let_def)
  show "snd (MidPoint state time h (pure_fixed f) w) = w"
    by (simp add: MidPoint_def pure_fixed_def Let_def)
  show "snd (Ralston state time h (pure_fixed f) w) = w"
    by (simp add: Ralston_def pure_fixed_def Let_def)
  show "snd (RK4 state time h (pure_fixed f) w) = w"
    by (simp add: RK4_def pure_fixed_def Let_def)
  show "\<exists>state'. ExplicitRungeKutta state time h tableau (pure_generic g) w = Inr (state', w)"
    using ERK_total[of state time h tableau "pure_generic g" w]
      stages_pure_world[of state time h tableau g 0 "replicate (length (b tableau)) DeltaState_default" w]
    by auto
qed

text \<open>
  C9. For an evaluator that returns the current \<open>pos\<close> as its rate of change, whatever the
  offset, eight steps of \<^verbatim>\<open>Euler\<close> with step \<open>0.5\<close> from \<open>pos = 1\<close> end at \<open>1.5 ^ 8\<close>, which
  is within \<open>0.001\<close> of \<open>25.6289\<close>.
\<close>

theorem Euler_eight_steps_exponential:
  assumes rate: "\<And>st t offset prev w. vel (fst (ev st t offset prev w)) = pos st"
    and start: "pos state = 1"
  shows "pos (fst (Euler_steps 8 state 0 0.5 ev w)) = 1.5 ^ 8 \<and>
         \<bar>pos (fst (Euler_steps 8 state 0 0.5 ev w)) - 25.6289\<bar> \<le> 1 / 1000"
proof -
  have "pos (fst (Euler_steps 8 state 0 0.5 ev w)) = (1 + 0.5) ^ 8 * pos state"
    using rate by (rule Euler_steps_growth)
  then have eq: "pos (fst (Euler_steps 8 state 0 0.5 ev w)) = 1.5 ^ 8"
    by (simp add: start)
  have val: "(1.5 :: real) ^ 8 = 6561 / 256"
    by (simp add: power_divide)
  show ?thesis unfolding eq val by simp
qed

theorem Euler_eight_steps_exponential_witness:
  "pos (fst (Euler_steps 8 \<lparr>pos = 1, vel = 0\<rparr> 0 0.5
          (pure_fixed (\<lambda>st t offset prev. \<lparr>vel = pos st, accel = ParticleState.vel st\<rparr>)) ()))
     = 6561 / 256 \<and>
   \<bar>pos (fst (Euler_steps 8 \<lparr>pos = 1, vel = 0\<rparr> 0 0.5
          (pure_fixed (\<lambda>st t offset prev. \<lparr>vel = pos st, accel = ParticleState.vel st\<rparr>)) ()))
     - 25.6289\<bar> \<le> 1 / 1000"
  using Euler_eight_steps_exponential[of
      "pure_fixed (\<lambda>st t offset prev. \<lparr>vel = pos st, accel = ParticleState.vel st\<rparr>)"
      "\<lparr>pos = 1, vel = 0\<rparr>" "()"]
  by (simp add: pure_fixed_def power_divide)

text \<open>
  C10. When \<open>tableau.b\<close> is empty, \<^verbatim>\<open>ExplicitRungeKutta\<close> never calls the evaluator (the
  world comes back as it was) and still assigns \<open>pos + deltaTime * 0.\<close> and
  \<open>vel + deltaTime * 0.\<close>.  In doubles that is NaN for an infinite or NaN \<open>deltaTime\<close>, so the
  claim fails there.  For a finite \<open>deltaTime\<close> and \<open>pos\<close>, \<open>vel\<close> holding doubles, both keep
  their value (a zero may change its sign).
\<close>

theorem ExplicitRungeKutta64_no_stages:
  assumes "b64 tableau = []"
    and "well_formed (pos64 state)" and "well_formed (ParticleState64.vel64 state)"
  shows "ExplicitRungeKutta64 state time deltaTime tableau ev w =
           Inr (state\<lparr>pos64 := pos64 state + deltaTime * Zero False,
                      ParticleState64.vel64 := ParticleState64.vel64 state + deltaTime * Zero False\<rparr>, w)
         \<and> (if is_finite deltaTime
            then same_value (pos64 state) (pos64 state + deltaTime * Zero False)
               \<and> same_value (ParticleState64.vel64 state)
                    (ParticleState64.vel64 state + deltaTime * Zero False)
            else pos64 state + deltaTime * Zero False = NaN
               \<and> ParticleState64.vel64 state + deltaTime * Zero False = NaN)"
proof -
  have "deltaTime * Zero False = NaN" if "\<not> is_finite deltaTime"
    using that by (cases deltaTime) (simp_all add: double_ops)
  then show ?thesis
    using assms
    by (simp add: ExplicitRungeKutta64_def stages64_done weights64_done Let_def
          finite_times_zero plus_zero_same plus_NaN)
qed

theorem ExplicitRungeKutta64_no_stages_witness:
  "b64 \<lparr>a64 = [], b64 = [], c64 = []\<rparr> = [] \<and> is_finite (Finite (1 / 2)) \<and>
   well_formed (Finite 1) \<and> well_formed (Zero True) \<and>
   ExplicitRungeKutta64 \<lparr>pos64 = Finite 1, vel64 = Zero True\<rparr> (Zero False) (Finite (1 / 2))
     \<lparr>a64 = [], b64 = [], c64 = []\<rparr> (counting_generic64 DeltaState64_default) 0
   = Inr (\<lparr>pos64 = Finite 1, vel64 = Zero False\<rparr>, 0) \<and>
   same_value (Finite 1) (Finite 1) \<and> same_value (Zero True) (Zero False)"
  using ExplicitRungeKutta64_no_stages[of "\<lparr>a64 = [], b64 = [], c64 = []\<rparr>"
      "\<lparr>pos64 = Finite 1, vel64 = Zero True\<rparr>" "Zero False" "Finite (1 / 2)"
      "counting_generic64 DeltaState64_default" 0]
    round_to_double_1
  by (simp add: double_ops)

theorem ExplicitRungeKutta64_no_stages_counterexample:
  "ExplicitRungeKutta64 \<lparr>pos64 = Finite 1, vel64 = Finite 1\<rparr> (Zero False) (Infinity False)
     \<lparr>a64 = [], b64 = [], c64 = []\<rparr> (counting_generic64 DeltaState64_default) 0
   = Inr (\<lparr>pos64 = NaN, vel64 = NaN\<rparr>, 0)"
  by (simp add: ExplicitRungeKutta64_def stages64_done weights64_done Let_def double_ops)

end
